theory Spec2Isabelle
  imports Complex_Main
begin

section \<open>Python strings\<close>

text \<open>
  A Python \<open>str\<close> is a \<^typ>\<open>string\<close>, one element per character.
  \<open>startswith s p\<close> is \<open>s.startswith(p)\<close>, \<open>str_contains s n\<close> is \<open>n in s\<close>.
\<close>

fun startswith :: "string \<Rightarrow> string \<Rightarrow> bool" where
  "startswith s [] = True"
| "startswith [] (p # ps) = False"
| "startswith (c # cs) (p # ps) = (c = p \<and> startswith cs ps)"

fun str_contains :: "string \<Rightarrow> string \<Rightarrow> bool" where
  "str_contains [] n = (n = [])"
| "str_contains (c # cs) n = (startswith (c # cs) n \<or> str_contains cs n)"

text \<open>
  \<open>s.split(c)\<close> for a separator of one character: the pieces between the
  separators, never an empty list. The accumulator holds the current piece, reversed.
\<close>

fun split_acc :: "char \<Rightarrow> string \<Rightarrow> string \<Rightarrow> string list" where
  "split_acc c acc [] = [rev acc]"
| "split_acc c acc (x # xs) =
     (if x = c then rev acc # split_acc c [] xs else split_acc c (x # acc) xs)"

definition py_split :: "string \<Rightarrow> char \<Rightarrow> string list" where
  "py_split s c = split_acc c [] s"

text \<open>\<open>sep.join(xs)\<close>.\<close>

fun py_join :: "string \<Rightarrow> string list \<Rightarrow> string" where
  "py_join sep [] = []"
| "py_join sep [x] = x"
| "py_join sep (x # y # ys) = x @ sep @ py_join sep (y # ys)"

text \<open>
  \<open>s.replace(old, new)\<close>: every occurrence of \<open>old\<close>, left to right, without
  overlap; an empty \<open>old\<close> matches before every character and at the end.
\<close>

function py_replace :: "string \<Rightarrow> string \<Rightarrow> string \<Rightarrow> string" where
  "py_replace [] old new = (if old = [] then new else [])"
| "py_replace (c # cs) old new =
     (if old = [] then new @ concat (map (\<lambda>x. x # new) (c # cs))
      else if startswith (c # cs) old
        then new @ py_replace (drop (length old) (c # cs)) old new
      else c # py_replace cs old new)"
  by pat_completeness auto

termination
  by (relation "measure (\<lambda>(s, old, new). length s)") auto

declare py_replace.simps [simp del]

section \<open>Python values\<close>

text \<open>
  What \<open>json.loads\<close> and \<open>Response.json\<close> return. A float is its exact rational
  value, or one of the three non-finite values the decoder accepts. \<open>JObj\<close> holds the
  items of a \<open>dict\<close>; a lookup takes the first binding of a key. \<open>JNull\<close> is \<open>None\<close>.
\<close>

datatype pyfloat = Finite rat | PosInf | NegInf | NaN

datatype json =
    JNull
  | JBool bool
  | JInt int
  | JFloat pyfloat
  | JStr string
  | JArr "json list"
  | JObj "(string \<times> json) list"

text \<open>
  The argument of an exception: a text, a format template with the values it is applied
  to (left unrendered), or a document.
\<close>

datatype payload =
    Text string
  | Formatted string "json list"
  | Doc json

datatype exn =
    MissingCredentials payload
  | RepoTypeNotImplemented payload
  | ManifestListNotFound payload
  | ManifestNotFound payload
  | Exception payload
  | FileNotFoundError string
  | RuntimeError string
  | KeyError string
  | TypeError
  | AttributeError string
  | JSONDecodeError
  | OtherError string

text \<open>\<open>v[k]\<close> for a \<open>str\<close> key \<open>k\<close>: only a \<open>dict\<close> accepts it.\<close>

fun py_getitem :: "json \<Rightarrow> string \<Rightarrow> exn + json" where
  "py_getitem (JObj kvs) k = (case map_of kvs k of None \<Rightarrow> Inl (KeyError k) | Some v \<Rightarrow> Inr v)"
| "py_getitem v k = Inl TypeError"

text \<open>\<open>len(v)\<close>.\<close>

fun py_len :: "json \<Rightarrow> exn + nat" where
  "py_len (JArr xs) = Inr (length xs)"
| "py_len (JStr s) = Inr (length s)"
| "py_len (JObj kvs) = Inr (length (remdups (map fst kvs)))"
| "py_len v = Inl TypeError"

text \<open>The values \<open>for t in v\<close> runs through.\<close>

fun py_iter :: "json \<Rightarrow> exn + json list" where
  "py_iter (JArr xs) = Inr xs"
| "py_iter (JStr s) = Inr (map (\<lambda>c. JStr [c]) s)"
| "py_iter (JObj kvs) = Inr (map JStr (remdups (map fst kvs)))"
| "py_iter v = Inl TypeError"

text \<open>\<open>v == b\<close> for a \<open>bool\<close> \<open>b\<close>: \<open>True\<close> equals 1 and 1.0, \<open>False\<close> equals 0 and 0.0.\<close>

fun py_eq_bool :: "json \<Rightarrow> bool \<Rightarrow> bool" where
  "py_eq_bool (JBool a) b = (a = b)"
| "py_eq_bool (JInt n) b = (n = (if b then 1 else 0))"
| "py_eq_bool (JFloat (Finite r)) b = (r = (if b then 1 else 0))"
| "py_eq_bool v b = False"

text \<open>\<open>n in v\<close> for a \<open>str\<close> \<open>n\<close>.\<close>

fun py_contains :: "json \<Rightarrow> string \<Rightarrow> exn + bool" where
  "py_contains (JStr s) n = Inr (str_contains s n)"
| "py_contains (JArr xs) n = Inr (JStr n \<in> set xs)"
| "py_contains (JObj kvs) n = Inr (n \<in> set (map fst kvs))"
| "py_contains v n = Inl TypeError"

text \<open>An optional \<open>str\<close>: its truth value, its text under \<open>format\<close>, its content.\<close>

fun truthy :: "string option \<Rightarrow> bool" where
  "truthy None = False"
| "truthy (Some s) = (s \<noteq> [])"

fun py_str :: "string option \<Rightarrow> string" where
  "py_str None = ''None''"
| "py_str (Some s) = s"

fun str_of :: "string option \<Rightarrow> string" where
  "str_of None = []"
| "str_of (Some s) = s"

section \<open>The collaborators\<close>

text \<open>
  The class \<open>Image\<close> is imported from another module: its four getters are the fields.
\<close>

record Image =
  get_image :: string
  get_image_repo :: string
  get_image_name :: string
  get_tag :: string

text \<open>\<open>os.environ\<close>.\<close>

type_synonym environ = "string \<rightharpoonup> string"

text \<open>
  A \<open>requests\<close> response: \<open>resp_json\<close> is what \<open>resp.json()\<close> returns or raises.
\<close>

record response =
  status_code :: int
  resp_text :: string
  resp_json :: "exn + json"

text \<open>
  The outside world of one call: \<open>requests.get(url)\<close>; \<open>ArtifactoryPath.stat(p).sha256\<close>
  for a path and its \<open>auth\<close> pair (a \<open>str\<close> or \<open>None\<close>); \<open>p.open()\<close>, which raises or gives
  a file whose \<open>read()\<close> raises or gives the decoded content; the standard output of
  \<open>subprocess.run(["/bin/bash", "-c", cmd], capture_output=True)\<close>; \<open>json.loads\<close>.
\<close>

record world =
  http_get :: "string \<Rightarrow> exn + response"
  stat_sha256 :: "string \<Rightarrow> string \<times> string \<Rightarrow> exn + string option"
  path_open :: "string \<Rightarrow> string \<times> string \<Rightarrow> exn + (exn + string)"
  run_shell :: "string \<Rightarrow> exn + string"
  json_loads :: "string \<Rightarrow> exn + json"

section \<open>ArtifactoryRepo\<close>

text \<open>
  The three class attributes \<open>_artifactory_user\<close>, \<open>_artifactory_key\<close> and
  \<open>_artifactory_base\<close>, shared by every instance; \<open>None\<close> in the class body.
\<close>

record ArtifactoryRepo_class =
  cls_artifactory_user :: "string option"
  cls_artifactory_key :: "string option"
  cls_artifactory_base :: "string option"

text \<open>
  An instance. An assignment \<open>self._artifactory_user = v\<close> binds an attribute of the
  instance, not of the class: the \<open>own\<close> fields hold these bindings (\<open>None\<close> while the
  instance has none), and a read of \<open>self._artifactory_user\<close> takes the instance's
  binding when there is one and the class attribute otherwise.
\<close>

record ArtifactoryRepo =
  a_image :: Image
  artifactory_user :: string
  artifactory_key :: string
  artifactory_base :: string
  own_artifactory_user :: "string option"
  own_artifactory_key :: "string option"
  own_artifactory_base :: "string option"

definition read_attr :: "string option \<Rightarrow> string option \<Rightarrow> string option" where
  "read_attr own cls = (case own of Some v \<Rightarrow> Some v | None \<Rightarrow> cls)"

text \<open>
  One \<open>if/elif/else\<close> chain of \<open>__init__\<close>: the argument, the class attribute (the
  instance has no binding of its own yet), the environment variable \<open>var\<close>, or
  \<open>MissingCredentials\<close> with the chain's message. The result is the value assigned to
  the public attribute and the instance's own binding of the underscore attribute.
\<close>

definition credential_chain ::
  "string option \<Rightarrow> string option \<Rightarrow> environ \<Rightarrow> string \<Rightarrow> string \<Rightarrow> exn + string \<times> string option"
where
  "credential_chain arg cls env var msg =
     (if truthy arg then Inr (str_of arg, None)
      else if truthy (read_attr None cls) then Inr (str_of (read_attr None cls), None)
      else if var \<in> dom env then Inr (str_of (read_attr (env var) cls), env var)
      else Inl (MissingCredentials (Text msg)))"

definition msg_user :: string where
  "msg_user = ''No artifactory user provided or found in ARTIFACTORY_USER environment variable''"

definition msg_key :: string where
  "msg_key = ''No artifactory key provided or found in ARTIFACTORY_KEY environment variable''"

definition msg_base :: string where
  "msg_base = ''No artifactory base provided or found in ARTIFACTORY_BASE environment variable''"

text \<open>
  \<open>ArtifactoryRepo.__init__(image, artifactory_base, artifactory_user, artifactory_key)\<close>:
  user, then key, then base; the first chain that raises ends the construction. The
  class attributes are returned as the construction leaves them.
\<close>

definition ArtifactoryRepo_init ::
  "ArtifactoryRepo_class \<Rightarrow> environ \<Rightarrow> Image \<Rightarrow> string option \<Rightarrow> string option \<Rightarrow> string option
     \<Rightarrow> (exn + ArtifactoryRepo) \<times> ArtifactoryRepo_class"
where
  "ArtifactoryRepo_init cls env img a_base a_user a_key =
     (case credential_chain a_user (cls_artifactory_user cls) env ''ARTIFACTORY_USER'' msg_user of
        Inl e \<Rightarrow> (Inl e, cls)
      | Inr (u, own_u) \<Rightarrow>
     (case credential_chain a_key (cls_artifactory_key cls) env ''ARTIFACTORY_KEY'' msg_key of
        Inl e \<Rightarrow> (Inl e, cls)
      | Inr (k, own_k) \<Rightarrow>
     (case credential_chain a_base (cls_artifactory_base cls) env ''ARTIFACTORY_BASE'' msg_base of
        Inl e \<Rightarrow> (Inl e, cls)
      | Inr (b, own_b) \<Rightarrow>
          (Inr \<lparr>a_image = img, artifactory_user = u, artifactory_key = k, artifactory_base = b,
                own_artifactory_user = own_u, own_artifactory_key = own_k,
                own_artifactory_base = own_b\<rparr>, cls))))"

text \<open>\<open>_get_artifactory_repo\<close>.\<close>

definition get_artifactory_repo :: "ArtifactoryRepo \<Rightarrow> string" where
  "get_artifactory_repo self =
     (let p = py_join ''/'' (drop 1 (py_split (get_image_repo (a_image self)) CHR ''/''));
          r = hd (py_split (get_image_repo (a_image self)) CHR ''.'')
      in r @ ''/'' @ p)"

text \<open>The paths \<open>manifestpath\<close> and \<open>listpath\<close> handed to \<open>ArtifactoryPath\<close>.\<close>

definition manifestpath :: "ArtifactoryRepo \<Rightarrow> string" where
  "manifestpath self =
     py_join ''/'' [artifactory_base self, get_artifactory_repo self,
                    get_image_name (a_image self), get_tag (a_image self), ''manifest.json'']"

definition listpath :: "ArtifactoryRepo \<Rightarrow> string" where
  "listpath self =
     py_join ''/'' [artifactory_base self, get_artifactory_repo self,
                    get_image_name (a_image self), get_tag (a_image self), ''list.manifest.json'']"

text \<open>\<open>_get_raw_image_digest\<close> and \<open>_get_raw_manifest_list_digest\<close>.\<close>

definition get_raw_image_digest :: "world \<Rightarrow> ArtifactoryRepo \<Rightarrow> exn + string option" where
  "get_raw_image_digest w self =
     (case stat_sha256 w (manifestpath self) (artifactory_user self, artifactory_key self) of
        Inl (FileNotFoundError m) \<Rightarrow> Inl (ManifestNotFound (Text m))
      | Inl e \<Rightarrow> Inl e
      | Inr h \<Rightarrow> Inr h)"

definition get_raw_manifest_list_digest :: "world \<Rightarrow> ArtifactoryRepo \<Rightarrow> exn + string option" where
  "get_raw_manifest_list_digest w self =
     (case stat_sha256 w (listpath self) (artifactory_user self, artifactory_key self) of
        Inl (FileNotFoundError m) \<Rightarrow> Inl (ManifestListNotFound (Text m))
      | Inl e \<Rightarrow> Inl e
      | Inr h \<Rightarrow> Inr h)"

text \<open>\<open>get_image_digest\<close> and \<open>get_manifest_list_digest\<close>: \<open>'sha256:{}'.format(...)\<close>.\<close>

definition ArtifactoryRepo_get_image_digest :: "world \<Rightarrow> ArtifactoryRepo \<Rightarrow> exn + json" where
  "ArtifactoryRepo_get_image_digest w self =
     (case get_raw_image_digest w self of
        Inl e \<Rightarrow> Inl e
      | Inr h \<Rightarrow> Inr (JStr (''sha256:'' @ py_str h)))"

definition ArtifactoryRepo_get_manifest_list_digest :: "world \<Rightarrow> ArtifactoryRepo \<Rightarrow> exn + json" where
  "ArtifactoryRepo_get_manifest_list_digest w self =
     (case get_raw_manifest_list_digest w self of
        Inl e \<Rightarrow> Inl e
      | Inr h \<Rightarrow> Inr (JStr (''sha256:'' @ py_str h)))"

text \<open>
  \<open>get_raw_manifest_list\<close>: \<open>FileNotFoundError\<close> and \<open>RuntimeError\<close> of \<open>open()\<close> become
  \<open>ManifestListNotFound\<close>; what \<open>read()\<close> and \<open>json.loads\<close> raise is not caught.
\<close>

definition ArtifactoryRepo_get_raw_manifest_list :: "world \<Rightarrow> ArtifactoryRepo \<Rightarrow> exn + json" where
  "ArtifactoryRepo_get_raw_manifest_list w self =
     (case path_open w (listpath self) (artifactory_user self, artifactory_key self) of
        Inl (FileNotFoundError m) \<Rightarrow> Inl (ManifestListNotFound (Text m))
      | Inl (RuntimeError m) \<Rightarrow> Inl (ManifestListNotFound (Text m))
      | Inl e \<Rightarrow> Inl e
      | Inr f \<Rightarrow>
          (case f of
             Inl e \<Rightarrow> Inl e
           | Inr content \<Rightarrow> json_loads w content))"

section \<open>QuayRepo\<close>

record QuayRepo =
  q_image :: Image

definition QuayRepo_init :: "Image \<Rightarrow> QuayRepo" where
  "QuayRepo_init img = \<lparr>q_image = img\<rparr>"

definition QUAY_BASE_URL :: string where
  "QUAY_BASE_URL = ''https://quay.io/api/v1/repository''"

text \<open>\<open>_get_quay_repo\<close>.\<close>

definition get_quay_repo :: "QuayRepo \<Rightarrow> string" where
  "get_quay_repo self =
     (let r = py_replace (get_image_repo (q_image self)) ''quay.io/'' ''''
      in py_join ''/'' [r, get_image_name (q_image self)])"

text \<open>The address \<open>url + self.image.get_tag()\<close> that \<open>_get_digest\<close> requests.\<close>

definition quay_url :: "QuayRepo \<Rightarrow> string" where
  "quay_url self =
     py_join ''/'' [QUAY_BASE_URL, get_quay_repo self, ''tag'',
                    ''?onlyActiveTags=true&specificTag=''] @ get_tag (q_image self)"

text \<open>
  The loop \<open>for t in tags\<close> of \<open>_get_digest\<close>: its body returns or raises on the first
  entry; with no entry the loop ends and the method returns \<open>None\<close>.
\<close>

fun tags_loop :: "string \<Rightarrow> bool \<Rightarrow> json list \<Rightarrow> exn + json" where
  "tags_loop tag manifest_list [] = Inr JNull"
| "tags_loop tag manifest_list (t # ts) =
     (case py_getitem t ''is_manifest_list'' of
        Inl e \<Rightarrow> Inl e
      | Inr flag \<Rightarrow>
          if py_eq_bool flag manifest_list then py_getitem t ''manifest_digest''
          else if manifest_list
            then Inl (ManifestListNotFound (Text (''Tag '' @ tag @ '' is not manifest list'')))
          else Inl (ManifestNotFound (Text (''Tag '' @ tag @ '' is a manifest list''))))"

text \<open>\<open>QuayRepo._get_digest(manifest_list)\<close>.\<close>

definition QuayRepo_get_digest :: "world \<Rightarrow> QuayRepo \<Rightarrow> bool \<Rightarrow> exn + json" where
  "QuayRepo_get_digest w self manifest_list =
     (case http_get w (quay_url self) of
        Inl e \<Rightarrow> Inl e
      | Inr resp \<Rightarrow>
          if status_code resp = 403 then Inl (MissingCredentials (Text (resp_text resp)))
          else if status_code resp = 404 then
            (if manifest_list then Inl (ManifestListNotFound (Text (resp_text resp)))
             else Inl (ManifestNotFound (Text (resp_text resp))))
          else if \<not> status_code resp = 200 then Inl (Exception (Text (resp_text resp)))
          else
            (case resp_json resp of
               Inl e \<Rightarrow> Inl e
             | Inr body \<Rightarrow>
            (case py_getitem body ''tags'' of
               Inl e \<Rightarrow> Inl e
             | Inr tags \<Rightarrow>
            (case py_len tags of
               Inl e \<Rightarrow> Inl e
             | Inr n \<Rightarrow>
                 if n > 1
                 then Inl (Exception (Formatted ''Expected 1 tag, found {}. {}'' [JInt (int n), tags]))
                 else
                   (case py_iter tags of
                      Inl e \<Rightarrow> Inl e
                    | Inr ts \<Rightarrow> tags_loop (get_tag (q_image self)) manifest_list ts)))))"

definition QuayRepo_get_image_digest :: "world \<Rightarrow> QuayRepo \<Rightarrow> exn + json" where
  "QuayRepo_get_image_digest w self = QuayRepo_get_digest w self False"

definition QuayRepo_get_manifest_list_digest :: "world \<Rightarrow> QuayRepo \<Rightarrow> exn + json" where
  "QuayRepo_get_manifest_list_digest w self = QuayRepo_get_digest w self True"

section \<open>DockerRepo\<close>

record DockerRepo =
  d_image :: Image
  docker_user :: "string option"
  docker_key :: "string option"

text \<open>
  \<open>DockerRepo.__init__(image, docker_user, docker_key)\<close>: the argument, the environment
  variable, or \<open>None\<close>; nothing is raised. The attributes \<open>_docker_user\<close> and \<open>_docker_key\<close>
  it also binds are read nowhere.
\<close>

definition DockerRepo_init :: "environ \<Rightarrow> Image \<Rightarrow> string option \<Rightarrow> string option \<Rightarrow> DockerRepo" where
  "DockerRepo_init env img d_user d_key =
     \<lparr>d_image = img,
      docker_user =
        (if truthy d_user then d_user
         else if ''DOCKER_USER'' \<in> dom env then env ''DOCKER_USER''
         else None),
      docker_key =
        (if truthy d_key then d_key
         else if ''DOCKER_KEY'' \<in> dom env then env ''DOCKER_KEY''
         else None)\<rparr>"

text \<open>
  The command lines, in the order of the source: the one of \<open>get_raw_manifest_list\<close>
  (after its \<open>replace\<close>), and the three of \<open>_get_digest\<close>: the raw inspection, the raw
  inspection piped to \<open>shasum\<close>, and the resolved inspection.
\<close>

definition raw_manifest_list_command :: "DockerRepo \<Rightarrow> string" where
  "raw_manifest_list_command self =
     py_replace
       (if docker_key self \<noteq> None \<and> docker_user self \<noteq> None
        then ''skopeo inspect --creds '' @ str_of (docker_user self) @ '':'' @ str_of (docker_key self)
               @ '' --override-os linux --raw docker://'' @ get_image (d_image self)
        else ''skopeo inspect --override-os linux --raw docker://'' @ get_image (d_image self))
       ''docker.io/'' ''''"

definition digest_raw_command :: "DockerRepo \<Rightarrow> string" where
  "digest_raw_command self =
     (if docker_key self \<noteq> None \<and> docker_user self \<noteq> None
      then ''skopeo inspect --creds'' @ str_of (docker_user self) @ '':'' @ str_of (docker_key self)
             @ '' --override-os linux --raw docker://'' @ get_image (d_image self)
      else ''skopeo inspect --override-os linux --raw docker://'' @ get_image (d_image self))"

definition digest_sha_command :: "DockerRepo \<Rightarrow> string" where
  "digest_sha_command self =
     (if docker_key self \<noteq> None \<and> docker_user self \<noteq> None
      then ''skopeo inspect --creds'' @ str_of (docker_user self) @ '':'' @ str_of (docker_key self)
             @ '' --override-os linux --raw docker://'' @ get_image (d_image self)
             @ '' | shasum -a 256''
      else ''skopeo inspect --override-os linux --raw docker://'' @ get_image (d_image self)
             @ '' | shasum -a 256'')"

definition digest_inspect_command :: "DockerRepo \<Rightarrow> string" where
  "digest_inspect_command self =
     (if docker_key self \<noteq> None \<and> docker_user self \<noteq> None
      then ''skopeo inspect --creds'' @ str_of (docker_user self) @ '':'' @ str_of (docker_key self)
             @ '' --override-os linux docker://'' @ get_image (d_image self)
      else ''skopeo inspect --override-os linux docker://'' @ get_image (d_image self))"

text \<open>
  \<open>DockerRepo.get_raw_manifest_list\<close>: everything after the command is built runs under
  \<open>try\<close>, and \<open>except Exception\<close> replaces whatever was raised, the
  \<open>ManifestListNotFound(out)\<close> of the body included. What the method prints is left out.
\<close>

definition DockerRepo_get_raw_manifest_list :: "world \<Rightarrow> DockerRepo \<Rightarrow> exn + json" where
  "DockerRepo_get_raw_manifest_list w self =
     (case
        (case run_shell w (raw_manifest_list_command self) of
           Inl e \<Rightarrow> Inl e
         | Inr stdout \<Rightarrow>
        (case json_loads w stdout of
           Inl e \<Rightarrow> Inl e
         | Inr out \<Rightarrow>
        (case py_getitem out ''mediaType'' of
           Inl e \<Rightarrow> Inl e
         | Inr mt \<Rightarrow>
        (case py_contains mt ''manifest.list'' of
           Inl e \<Rightarrow> Inl e
         | Inr is_list \<Rightarrow>
             if is_list then Inr out else Inl (ManifestListNotFound (Doc out))))))
      of
        Inl e \<Rightarrow> Inl (ManifestListNotFound (Text ''error with skopeo command''))
      | Inr out \<Rightarrow> Inr out)"

text \<open>
  \<open>DockerRepo._get_digest(manifest_list)\<close>. The branch of a manifest list asked for its
  single-image digest is \<open>pass\<close>: the method ends there and returns \<open>None\<close>. The output
  of the hashing command is taken as already decoded; \<open>split(' ')[0]\<close> is the head of a
  list that is never empty.
\<close>

definition DockerRepo_get_digest :: "world \<Rightarrow> DockerRepo \<Rightarrow> bool \<Rightarrow> exn + json" where
  "DockerRepo_get_digest w self manifest_list =
     (case run_shell w (digest_raw_command self) of
        Inl e \<Rightarrow> Inl e
      | Inr stdout \<Rightarrow>
     (case json_loads w stdout of
        Inl e \<Rightarrow> Inl e
      | Inr out \<Rightarrow>
     (case py_getitem out ''mediaType'' of
        Inl e \<Rightarrow> Inl e
      | Inr mt \<Rightarrow>
     (case py_contains mt ''manifest.list'' of
        Inl e \<Rightarrow> Inl e
      | Inr is_list \<Rightarrow>
          if is_list then
            (if manifest_list then
               (case run_shell w (digest_sha_command self) of
                  Inl e \<Rightarrow> Inl e
                | Inr sha_out \<Rightarrow> Inr (JStr (''sha256:'' @ hd (py_split sha_out CHR '' ''))))
             else Inr JNull)
          else
            (case run_shell w (digest_inspect_command self) of
               Inl e \<Rightarrow> Inl e
             | Inr stdout2 \<Rightarrow>
            (case json_loads w stdout2 of
               Inl e \<Rightarrow> Inl e
             | Inr out2 \<Rightarrow>
                 if manifest_list
                 then Inl (ManifestListNotFound (Text ''Manifest List does not exist''))
                 else py_getitem out2 ''Digest''))))))"

definition DockerRepo_get_image_digest :: "world \<Rightarrow> DockerRepo \<Rightarrow> exn + json" where
  "DockerRepo_get_image_digest w self = DockerRepo_get_digest w self False"

definition DockerRepo_get_manifest_list_digest :: "world \<Rightarrow> DockerRepo \<Rightarrow> exn + json" where
  "DockerRepo_get_manifest_list_digest w self = DockerRepo_get_digest w self True"

section \<open>ImageRepo\<close>

text \<open>The object held in \<open>self.image_repo\<close>.\<close>

datatype adapter =
    Artifactory ArtifactoryRepo
  | Quay QuayRepo
  | Docker DockerRepo

record ImageRepo =
  image :: Image
  image_repo :: adapter

text \<open>
  \<open>ImageRepo.__init__(image)\<close>: the \<open>if/elif\<close> chain on \<open>get_image_repo()\<close>, in the order
  of the source. Each adapter is constructed from the image alone.
\<close>

definition ImageRepo_init ::
  "ArtifactoryRepo_class \<Rightarrow> environ \<Rightarrow> Image \<Rightarrow> (exn + ImageRepo) \<times> ArtifactoryRepo_class"
where
  "ImageRepo_init cls env img =
     (if str_contains (get_image_repo img) ''artifactory'' then
        (case ArtifactoryRepo_init cls env img None None None of
           (Inl e, cls') \<Rightarrow> (Inl e, cls')
         | (Inr a, cls') \<Rightarrow> (Inr \<lparr>image = img, image_repo = Artifactory a\<rparr>, cls'))
      else if startswith (get_image_repo img) ''quay.io/'' then
        (Inr \<lparr>image = img, image_repo = Quay (QuayRepo_init img)\<rparr>, cls)
      else if startswith (get_image_repo img) ''docker.io'' then
        (Inr \<lparr>image = img, image_repo = Docker (DockerRepo_init env img None None)\<rparr>, cls)
      else
        (Inl (RepoTypeNotImplemented (Text (''Unknown repository type for image '' @ get_image img))),
         cls))"

text \<open>
  The three methods forward to the adapter. \<open>QuayRepo\<close> defines no
  \<open>get_raw_manifest_list\<close>: looking the attribute up raises \<open>AttributeError\<close>.
\<close>

definition ImageRepo_get_manifest_list_digest :: "world \<Rightarrow> ImageRepo \<Rightarrow> exn + json" where
  "ImageRepo_get_manifest_list_digest w self =
     (case image_repo self of
        Artifactory a \<Rightarrow> ArtifactoryRepo_get_manifest_list_digest w a
      | Quay q \<Rightarrow> QuayRepo_get_manifest_list_digest w q
      | Docker d \<Rightarrow> DockerRepo_get_manifest_list_digest w d)"

definition ImageRepo_get_image_digest :: "world \<Rightarrow> ImageRepo \<Rightarrow> exn + json" where
  "ImageRepo_get_image_digest w self =
     (case image_repo self of
        Artifactory a \<Rightarrow> ArtifactoryRepo_get_image_digest w a
      | Quay q \<Rightarrow> QuayRepo_get_image_digest w q
      | Docker d \<Rightarrow> DockerRepo_get_image_digest w d)"

definition ImageRepo_get_raw_manifest_list :: "world \<Rightarrow> ImageRepo \<Rightarrow> exn + json" where
  "ImageRepo_get_raw_manifest_list w self =
     (case image_repo self of
        Artifactory a \<Rightarrow> ArtifactoryRepo_get_raw_manifest_list w a
      | Quay q \<Rightarrow> Inl (AttributeError ''get_raw_manifest_list'')
      | Docker d \<Rightarrow> DockerRepo_get_raw_manifest_list w d)"

section \<open>Predicates of the specification\<close>

text \<open>
  The four kinds of the shared taxonomy, and the form of a digest: \<open>sha256:\<close> and 64
  lowercase hexadecimal characters.
\<close>

fun taxonomy_kind :: "exn \<Rightarrow> bool" where
  "taxonomy_kind (MissingCredentials p) = True"
| "taxonomy_kind (RepoTypeNotImplemented p) = True"
| "taxonomy_kind (ManifestListNotFound p) = True"
| "taxonomy_kind (ManifestNotFound p) = True"
| "taxonomy_kind e = False"

definition lower_hex :: "char \<Rightarrow> bool" where
  "lower_hex c = (c \<in> set ''0123456789abcdef'')"

definition digest_form :: "string \<Rightarrow> bool" where
  "digest_form d = (take 7 d = ''sha256:'' \<and> length d = 71 \<and> list_all lower_hex (drop 7 d))"

text \<open>
  The lookup path as the specification words it: the base, the part of the repository
  host before its first \<open>.\<close>, everything after the first \<open>/\<close>-separated segment of the
  host, the image name, the tag and the file name, joined by \<open>/\<close>.
\<close>

definition spec_first_label :: "string \<Rightarrow> string" where
  "spec_first_label host = takeWhile (\<lambda>x. x \<noteq> CHR ''.'') host"

definition spec_rest_of_host :: "string \<Rightarrow> string" where
  "spec_rest_of_host host = drop 1 (dropWhile (\<lambda>x. x \<noteq> CHR ''/'') host)"

definition spec_lookup_path :: "string \<Rightarrow> Image \<Rightarrow> string \<Rightarrow> string" where
  "spec_lookup_path base img file =
     base @ ''/'' @ spec_first_label (get_image_repo img) @ ''/''
       @ spec_rest_of_host (get_image_repo img) @ ''/'' @ get_image_name img @ ''/''
       @ get_tag img @ ''/'' @ file"

text \<open>
  A credential has a source when the argument or the class attribute is a non-empty
  \<open>str\<close>, or the environment has the variable.
\<close>

definition has_source :: "string option \<Rightarrow> string option \<Rightarrow> environ \<Rightarrow> string \<Rightarrow> bool" where
  "has_source arg cls env var = (truthy arg \<or> truthy cls \<or> var \<in> dom env)"

text \<open>
  The values a backend supplies to the two digest methods of an adapter are well formed
  when the checksum the artifact store reports for either path is 64 lowercase
  hexadecimal characters, when every \<open>manifest_digest\<close> of the registry's response and
  the \<open>Digest\<close> of the resolved inspection, if a \<open>str\<close>, has the form of a digest, and
  when the output of the hashing command starts with 64 lowercase hexadecimal
  characters before its first space.
\<close>

definition hex64 :: "string \<Rightarrow> bool" where
  "hex64 h = (length h = 64 \<and> list_all lower_hex h)"

fun digest_if_str :: "exn + json \<Rightarrow> bool" where
  "digest_if_str (Inr (JStr d)) = digest_form d"
| "digest_if_str v = True"

definition backend_digests_well_formed :: "world \<Rightarrow> adapter \<Rightarrow> bool" where
  "backend_digests_well_formed w a =
     (case a of
        Artifactory r \<Rightarrow>
          list_all
            (\<lambda>p. case stat_sha256 w p (artifactory_user r, artifactory_key r) of
                    Inl e \<Rightarrow> True
                  | Inr h \<Rightarrow> truthy h \<and> hex64 (str_of h))
            [manifestpath r, listpath r]
      | Quay q \<Rightarrow>
          (case http_get w (quay_url q) of
             Inl e \<Rightarrow> True
           | Inr resp \<Rightarrow>
          (case resp_json resp of
             Inl e \<Rightarrow> True
           | Inr body \<Rightarrow>
          (case py_getitem body ''tags'' of
             Inl e \<Rightarrow> True
           | Inr tags \<Rightarrow>
          (case py_iter tags of
             Inl e \<Rightarrow> True
           | Inr ts \<Rightarrow> list_all (\<lambda>t. digest_if_str (py_getitem t ''manifest_digest'')) ts))))
      | Docker d \<Rightarrow>
          (case run_shell w (digest_sha_command d) of
             Inl e \<Rightarrow> True
           | Inr sha_out \<Rightarrow> hex64 (hd (py_split sha_out CHR '' '')))
          \<and> (case run_shell w (digest_inspect_command d) of
             Inl e \<Rightarrow> True
           | Inr stdout2 \<Rightarrow>
          (case json_loads w stdout2 of
             Inl e \<Rightarrow> True
           | Inr out2 \<Rightarrow> digest_if_str (py_getitem out2 ''Digest''))))"

section \<open>Fixtures\<close>

text \<open>
  A world in which every collaborator fails, to be updated field by field; one image
  reference for each backend, one whose host starts with \<open>quay.io/\<close> and contains the
  marker \<open>artifactory\<close>, and one of an unknown registry; the class attributes unset and
  set; an environment with the three variables.
\<close>

definition no_backend :: world where
  "no_backend =
     \<lparr>http_get = (\<lambda>url. Inl (OtherError ''no http'')),
      stat_sha256 = (\<lambda>p auth. Inl (OtherError ''no store'')),
      path_open = (\<lambda>p auth. Inl (OtherError ''no store'')),
      run_shell = (\<lambda>cmd. Inl (OtherError ''no shell'')),
      json_loads = (\<lambda>s. Inl JSONDecodeError)\<rparr>"

definition artifactory_image :: Image where
  "artifactory_image =
     \<lparr>get_image = ''repo.artifactory.com/team/app:1'', get_image_repo = ''repo.artifactory.com/team'',
      get_image_name = ''app'', get_tag = ''1''\<rparr>"

definition quay_image :: Image where
  "quay_image = \<lparr>get_image = ''quay.io/org/app:1'', get_image_repo = ''quay.io/org'',
                  get_image_name = ''app'', get_tag = ''1''\<rparr>"

definition docker_image :: Image where
  "docker_image = \<lparr>get_image = ''docker.io/library/nginx:1'', get_image_repo = ''docker.io/library'',
                    get_image_name = ''nginx'', get_tag = ''1''\<rparr>"

definition no_cache :: ArtifactoryRepo_class where
  "no_cache = \<lparr>cls_artifactory_user = None, cls_artifactory_key = None, cls_artifactory_base = None\<rparr>"

definition full_cache :: ArtifactoryRepo_class where
  "full_cache =
     \<lparr>cls_artifactory_user = Some ''cu'', cls_artifactory_key = Some ''ck'',
      cls_artifactory_base = Some ''cb''\<rparr>"

definition full_environ :: environ where
  "full_environ =
     [''ARTIFACTORY_USER'' \<mapsto> ''eu'', ''ARTIFACTORY_KEY'' \<mapsto> ''ek'', ''ARTIFACTORY_BASE'' \<mapsto> ''eb'']"

definition quay_artifactory_image :: Image where
  "quay_artifactory_image =
     \<lparr>get_image = ''quay.io/artifactory/app:1'', get_image_repo = ''quay.io/artifactory'',
      get_image_name = ''app'', get_tag = ''1''\<rparr>"

definition other_image :: Image where
  "other_image = \<lparr>get_image = ''ghcr.io/org/app:1'', get_image_repo = ''ghcr.io/org'',
                   get_image_name = ''app'', get_tag = ''1''\<rparr>"

text \<open>
  An entry of the registry's \<open>tags\<close> list with its flag and digest, the response of
  status 200 that carries a list of entries, and the world whose registry answers with it.
\<close>

definition tag_entry :: "bool \<Rightarrow> string \<Rightarrow> json" where
  "tag_entry flag d = JObj [(''is_manifest_list'', JBool flag), (''manifest_digest'', JStr d)]"

definition tags_response :: "json list \<Rightarrow> response" where
  "tags_response ts =
     \<lparr>status_code = 200, resp_text = '''', resp_json = Inr (JObj [(''tags'', JArr ts)])\<rparr>"

definition quay_world :: "json list \<Rightarrow> world" where
  "quay_world ts = no_backend\<lparr>http_get := (\<lambda>url. Inr (tags_response ts))\<rparr>"

section \<open>Splitting and joining\<close>

lemma split_acc_neq_Nil: "split_acc c acc s \<noteq> []"
  by (induction s arbitrary: acc) auto

lemma py_join_Cons: "ys \<noteq> [] \<Longrightarrow> py_join sep (x # ys) = x @ sep @ py_join sep ys"
  by (cases ys) auto

lemma join_split_acc: "py_join [c] (split_acc c acc s) = rev acc @ s"
  by (induction s arbitrary: acc) (auto simp: py_join_Cons split_acc_neq_Nil)

lemma split_acc_takeWhile:
  "split_acc c acc s =
     (rev acc @ takeWhile (\<lambda>x. x \<noteq> c) s) #
       (case dropWhile (\<lambda>x. x \<noteq> c) s of [] \<Rightarrow> [] | y # r \<Rightarrow> split_acc c [] r)"
  by (induction s arbitrary: acc) auto

lemma hd_py_split: "hd (py_split s c) = takeWhile (\<lambda>x. x \<noteq> c) s"
  unfolding py_split_def by (subst split_acc_takeWhile) simp

lemma join_case_split_acc:
  "py_join [c] (case xs of [] \<Rightarrow> [] | y # r \<Rightarrow> split_acc c [] r) = drop 1 xs"
  by (cases xs) (simp_all add: join_split_acc)

lemma join_tail_py_split:
  "py_join [c] (drop 1 (py_split s c)) = drop 1 (dropWhile (\<lambda>x. x \<noteq> c) s)"
  unfolding py_split_def
  by (subst split_acc_takeWhile) (simp only: drop_Suc_Cons drop_0 One_nat_def join_case_split_acc)

section \<open>The lookup paths of the Artifact-Store adapter\<close>

lemma get_artifactory_repo_spec:
  "get_artifactory_repo self =
     spec_first_label (get_image_repo (a_image self)) @ ''/''
       @ spec_rest_of_host (get_image_repo (a_image self))"
  using join_tail_py_split [of "CHR ''/''" "get_image_repo (a_image self)"]
  by (simp add: get_artifactory_repo_def hd_py_split spec_first_label_def spec_rest_of_host_def)

text \<open>
  C8. The path that \<open>_get_raw_image_digest\<close> looks up is the base, the first label of the
  repository host, the rest of the host after its first segment, the image name, the tag
  and \<open>manifest.json\<close>, joined by \<open>/\<close>; \<open>_get_raw_manifest_list_digest\<close> looks up the same
  path ending in \<open>list.manifest.json\<close>.
\<close>

theorem artifactory_lookup_paths:
  "manifestpath self = spec_lookup_path (artifactory_base self) (a_image self) ''manifest.json''
   \<and> listpath self = spec_lookup_path (artifactory_base self) (a_image self) ''list.manifest.json''"
  by (simp add: manifestpath_def listpath_def get_artifactory_repo_spec spec_lookup_path_def)

section \<open>The facade's choice of an adapter\<close>

lemma docker_not_quay: "startswith s ''docker.io'' \<Longrightarrow> \<not> startswith s ''quay.io/''"
  by (cases s) auto

text \<open>
  C1, as stated, fails: the host \<open>quay.io/artifactory\<close> starts with the prefix of the
  hosted registry and contains the marker of the artifact store, and the facade constructs
  an \<open>ArtifactoryRepo\<close> for it.
\<close>

theorem facade_marker_before_prefix_counterexample:
  "startswith (get_image_repo quay_artifactory_image) ''quay.io/''
   \<and> fst (ImageRepo_init full_cache Map.empty quay_artifactory_image)
     = Inr \<lparr>image = quay_artifactory_image,
            image_repo = Artifactory
              \<lparr>a_image = quay_artifactory_image,
               artifactory_user = ''cu'', artifactory_key = ''ck'', artifactory_base = ''cb'',
               own_artifactory_user = None, own_artifactory_key = None,
               own_artifactory_base = None\<rparr>\<rparr>
   \<and> fst (ImageRepo_init full_cache Map.empty quay_artifactory_image)
     \<noteq> Inr \<lparr>image = quay_artifactory_image,
              image_repo = Quay (QuayRepo_init quay_artifactory_image)\<rparr>"
  by (simp add: ImageRepo_init_def ArtifactoryRepo_init_def credential_chain_def read_attr_def
        full_cache_def quay_artifactory_image_def)

text \<open>
  C1, amended. The marker is tested first: a repository host that contains
  \<open>artifactory\<close> gets an \<open>ArtifactoryRepo\<close>, constructed with no arguments (so the
  construction may raise \<open>MissingCredentials\<close>), whatever the host starts with. Of the
  hosts without the marker, one that starts with \<open>quay.io/\<close> gets a \<open>QuayRepo\<close>, one that
  starts with \<open>docker.io\<close> gets a \<open>DockerRepo\<close>, and any other raises
  \<open>RepoTypeNotImplemented\<close>.
\<close>

theorem facade_selection:
  "(str_contains (get_image_repo img) ''artifactory'' \<longrightarrow>
      ImageRepo_init cls env img =
        (map_sum id (\<lambda>a. \<lparr>image = img, image_repo = Artifactory a\<rparr>)
           (fst (ArtifactoryRepo_init cls env img None None None)), cls))
   \<and> (\<not> str_contains (get_image_repo img) ''artifactory''
        \<and> startswith (get_image_repo img) ''quay.io/'' \<longrightarrow>
      ImageRepo_init cls env img = (Inr \<lparr>image = img, image_repo = Quay (QuayRepo_init img)\<rparr>, cls))
   \<and> (\<not> str_contains (get_image_repo img) ''artifactory''
        \<and> startswith (get_image_repo img) ''docker.io'' \<longrightarrow>
      ImageRepo_init cls env img =
        (Inr \<lparr>image = img, image_repo = Docker (DockerRepo_init env img None None)\<rparr>, cls))
   \<and> (\<not> str_contains (get_image_repo img) ''artifactory''
        \<and> \<not> startswith (get_image_repo img) ''quay.io/''
        \<and> \<not> startswith (get_image_repo img) ''docker.io'' \<longrightarrow>
      ImageRepo_init cls env img =
        (Inl (RepoTypeNotImplemented (Text (''Unknown repository type for image '' @ get_image img))),
         cls))"
proof -
  have snd_init: "snd (ArtifactoryRepo_init cls env img None None None) = cls"
    by (simp add: ArtifactoryRepo_init_def split: sum.split prod.split)
  have "str_contains (get_image_repo img) ''artifactory'' \<Longrightarrow>
      ImageRepo_init cls env img =
        (map_sum id (\<lambda>a. \<lparr>image = img, image_repo = Artifactory a\<rparr>)
           (fst (ArtifactoryRepo_init cls env img None None None)), cls)"
    using snd_init
    by (cases "ArtifactoryRepo_init cls env img None None None")
       (auto simp: ImageRepo_init_def split: sum.split)
  then show ?thesis
    by (auto simp: ImageRepo_init_def dest: docker_not_quay)
qed

text \<open>
  One host of each of the four kinds, and the host with both the \<open>quay.io/\<close> prefix and
  the marker.
\<close>

theorem facade_selection_witness:
  "ImageRepo_init full_cache Map.empty artifactory_image
     = (Inr \<lparr>image = artifactory_image,
             image_repo = Artifactory
               \<lparr>a_image = artifactory_image,
                artifactory_user = ''cu'', artifactory_key = ''ck'', artifactory_base = ''cb'',
                own_artifactory_user = None, own_artifactory_key = None,
                own_artifactory_base = None\<rparr>\<rparr>, full_cache)
   \<and> ImageRepo_init full_cache Map.empty quay_artifactory_image
     = (Inr \<lparr>image = quay_artifactory_image,
             image_repo = Artifactory
               \<lparr>a_image = quay_artifactory_image,
                artifactory_user = ''cu'', artifactory_key = ''ck'', artifactory_base = ''cb'',
                own_artifactory_user = None, own_artifactory_key = None,
                own_artifactory_base = None\<rparr>\<rparr>, full_cache)
   \<and> ImageRepo_init no_cache Map.empty quay_image
     = (Inr \<lparr>image = quay_image, image_repo = Quay \<lparr>q_image = quay_image\<rparr>\<rparr>, no_cache)
   \<and> ImageRepo_init no_cache Map.empty docker_image
     = (Inr \<lparr>image = docker_image,
             image_repo = Docker \<lparr>d_image = docker_image, docker_user = None, docker_key = None\<rparr>\<rparr>,
        no_cache)
   \<and> ImageRepo_init no_cache Map.empty other_image
     = (Inl (RepoTypeNotImplemented (Text ''Unknown repository type for image ghcr.io/org/app:1'')),
        no_cache)"
  using
    facade_selection [of artifactory_image full_cache Map.empty]
    facade_selection [of quay_artifactory_image full_cache Map.empty]
    facade_selection [of quay_image no_cache Map.empty]
    facade_selection [of docker_image no_cache Map.empty]
    facade_selection [of other_image no_cache Map.empty]
  by (simp add: ArtifactoryRepo_init_def credential_chain_def read_attr_def QuayRepo_init_def
        DockerRepo_init_def full_cache_def artifactory_image_def quay_artifactory_image_def
        quay_image_def docker_image_def other_image_def)

section \<open>Credentials of the Artifact-Store adapter\<close>

lemma credential_chain_cases:
  "credential_chain arg cls env var msg =
     (if truthy arg then Inr (str_of arg, None)
      else if truthy cls then Inr (str_of cls, None)
      else if var \<in> dom env then Inr (str_of (env var), env var)
      else Inl (MissingCredentials (Text msg)))"
  by (auto simp: credential_chain_def read_attr_def)

lemma credential_chain_missing:
  "\<not> has_source arg cls env var \<Longrightarrow> credential_chain arg cls env var msg = Inl (MissingCredentials (Text msg))"
  by (simp add: credential_chain_cases has_source_def)

lemma credential_chain_found:
  "has_source arg cls env var \<Longrightarrow>
     \<exists>v own. credential_chain arg cls env var msg = Inr (v, own)
       \<and> (truthy arg \<longrightarrow> v = str_of arg)
       \<and> (\<not> truthy arg \<and> truthy cls \<longrightarrow> v = str_of cls)
       \<and> (\<not> truthy arg \<and> \<not> truthy cls \<longrightarrow> v = str_of (env var))"
  by (auto simp: credential_chain_cases has_source_def)

text \<open>
  C4. For each of user, key and base: an argument that is set (a non-empty \<open>str\<close>) is
  the value the instance uses, whatever the class attribute and the environment hold;
  with no argument, a class attribute that is set is used, whatever the environment
  holds. When every credential has a source the construction succeeds. When a credential
  has none, the construction raises \<open>MissingCredentials\<close> with the message of the first
  such credential in the order user, key, base, and that message names the credential's
  environment variable.
\<close>

theorem credential_precedence:
  "(has_source a_user (cls_artifactory_user cls) env ''ARTIFACTORY_USER''
      \<and> has_source a_key (cls_artifactory_key cls) env ''ARTIFACTORY_KEY''
      \<and> has_source a_base (cls_artifactory_base cls) env ''ARTIFACTORY_BASE'' \<longrightarrow>
    (\<exists>r. fst (ArtifactoryRepo_init cls env img a_base a_user a_key) = Inr r
      \<and> (truthy a_user \<longrightarrow> artifactory_user r = str_of a_user)
      \<and> (\<not> truthy a_user \<and> truthy (cls_artifactory_user cls) \<longrightarrow>
           artifactory_user r = str_of (cls_artifactory_user cls))
      \<and> (truthy a_key \<longrightarrow> artifactory_key r = str_of a_key)
      \<and> (\<not> truthy a_key \<and> truthy (cls_artifactory_key cls) \<longrightarrow>
           artifactory_key r = str_of (cls_artifactory_key cls))
      \<and> (truthy a_base \<longrightarrow> artifactory_base r = str_of a_base)
      \<and> (\<not> truthy a_base \<and> truthy (cls_artifactory_base cls) \<longrightarrow>
           artifactory_base r = str_of (cls_artifactory_base cls))))
   \<and> (\<not> has_source a_user (cls_artifactory_user cls) env ''ARTIFACTORY_USER'' \<longrightarrow>
        fst (ArtifactoryRepo_init cls env img a_base a_user a_key)
          = Inl (MissingCredentials (Text msg_user)))
   \<and> (has_source a_user (cls_artifactory_user cls) env ''ARTIFACTORY_USER''
        \<and> \<not> has_source a_key (cls_artifactory_key cls) env ''ARTIFACTORY_KEY'' \<longrightarrow>
        fst (ArtifactoryRepo_init cls env img a_base a_user a_key)
          = Inl (MissingCredentials (Text msg_key)))
   \<and> (has_source a_user (cls_artifactory_user cls) env ''ARTIFACTORY_USER''
        \<and> has_source a_key (cls_artifactory_key cls) env ''ARTIFACTORY_KEY''
        \<and> \<not> has_source a_base (cls_artifactory_base cls) env ''ARTIFACTORY_BASE'' \<longrightarrow>
        fst (ArtifactoryRepo_init cls env img a_base a_user a_key)
          = Inl (MissingCredentials (Text msg_base)))
   \<and> str_contains msg_user ''ARTIFACTORY_USER'' \<and> str_contains msg_key ''ARTIFACTORY_KEY''
   \<and> str_contains msg_base ''ARTIFACTORY_BASE''"
proof (intro conjI impI)
  assume h: "has_source a_user (cls_artifactory_user cls) env ''ARTIFACTORY_USER''
      \<and> has_source a_key (cls_artifactory_key cls) env ''ARTIFACTORY_KEY''
      \<and> has_source a_base (cls_artifactory_base cls) env ''ARTIFACTORY_BASE''"
  obtain u ou where u: "credential_chain a_user (cls_artifactory_user cls) env ''ARTIFACTORY_USER'' msg_user = Inr (u, ou)"
      "truthy a_user \<longrightarrow> u = str_of a_user"
      "\<not> truthy a_user \<and> truthy (cls_artifactory_user cls) \<longrightarrow> u = str_of (cls_artifactory_user cls)"
    using credential_chain_found [of a_user "cls_artifactory_user cls" env "''ARTIFACTORY_USER''" msg_user] h
    by blast
  obtain k ok where k: "credential_chain a_key (cls_artifactory_key cls) env ''ARTIFACTORY_KEY'' msg_key = Inr (k, ok)"
      "truthy a_key \<longrightarrow> k = str_of a_key"
      "\<not> truthy a_key \<and> truthy (cls_artifactory_key cls) \<longrightarrow> k = str_of (cls_artifactory_key cls)"
    using credential_chain_found [of a_key "cls_artifactory_key cls" env "''ARTIFACTORY_KEY''" msg_key] h
    by blast
  obtain b ob where b: "credential_chain a_base (cls_artifactory_base cls) env ''ARTIFACTORY_BASE'' msg_base = Inr (b, ob)"
      "truthy a_base \<longrightarrow> b = str_of a_base"
      "\<not> truthy a_base \<and> truthy (cls_artifactory_base cls) \<longrightarrow> b = str_of (cls_artifactory_base cls)"
    using credential_chain_found [of a_base "cls_artifactory_base cls" env "''ARTIFACTORY_BASE''" msg_base] h
    by blast
  show "\<exists>r. fst (ArtifactoryRepo_init cls env img a_base a_user a_key) = Inr r
      \<and> (truthy a_user \<longrightarrow> artifactory_user r = str_of a_user)
      \<and> (\<not> truthy a_user \<and> truthy (cls_artifactory_user cls) \<longrightarrow>
           artifactory_user r = str_of (cls_artifactory_user cls))
      \<and> (truthy a_key \<longrightarrow> artifactory_key r = str_of a_key)
      \<and> (\<not> truthy a_key \<and> truthy (cls_artifactory_key cls) \<longrightarrow>
           artifactory_key r = str_of (cls_artifactory_key cls))
      \<and> (truthy a_base \<longrightarrow> artifactory_base r = str_of a_base)
      \<and> (\<not> truthy a_base \<and> truthy (cls_artifactory_base cls) \<longrightarrow>
           artifactory_base r = str_of (cls_artifactory_base cls))"
    using u k b by (simp add: ArtifactoryRepo_init_def)
next
  assume "\<not> has_source a_user (cls_artifactory_user cls) env ''ARTIFACTORY_USER''"
  then show "fst (ArtifactoryRepo_init cls env img a_base a_user a_key)
          = Inl (MissingCredentials (Text msg_user))"
    by (simp add: ArtifactoryRepo_init_def credential_chain_missing)
next
  assume h: "has_source a_user (cls_artifactory_user cls) env ''ARTIFACTORY_USER''
        \<and> \<not> has_source a_key (cls_artifactory_key cls) env ''ARTIFACTORY_KEY''"
  then obtain u ou where "credential_chain a_user (cls_artifactory_user cls) env ''ARTIFACTORY_USER'' msg_user = Inr (u, ou)"
    using credential_chain_found [of a_user "cls_artifactory_user cls" env "''ARTIFACTORY_USER''" msg_user]
    by blast
  then show "fst (ArtifactoryRepo_init cls env img a_base a_user a_key)
          = Inl (MissingCredentials (Text msg_key))"
    using h by (simp add: ArtifactoryRepo_init_def credential_chain_missing)
next
  assume h: "has_source a_user (cls_artifactory_user cls) env ''ARTIFACTORY_USER''
        \<and> has_source a_key (cls_artifactory_key cls) env ''ARTIFACTORY_KEY''
        \<and> \<not> has_source a_base (cls_artifactory_base cls) env ''ARTIFACTORY_BASE''"
  obtain u ou where u: "credential_chain a_user (cls_artifactory_user cls) env ''ARTIFACTORY_USER'' msg_user = Inr (u, ou)"
    using credential_chain_found [of a_user "cls_artifactory_user cls" env "''ARTIFACTORY_USER''" msg_user] h
    by blast
  obtain k ok where k: "credential_chain a_key (cls_artifactory_key cls) env ''ARTIFACTORY_KEY'' msg_key = Inr (k, ok)"
    using credential_chain_found [of a_key "cls_artifactory_key cls" env "''ARTIFACTORY_KEY''" msg_key] h
    by blast
  show "fst (ArtifactoryRepo_init cls env img a_base a_user a_key)
          = Inl (MissingCredentials (Text msg_base))"
    using u k h by (simp add: ArtifactoryRepo_init_def credential_chain_missing)
next
  show "str_contains msg_user ''ARTIFACTORY_USER''" by (simp add: msg_user_def)
  show "str_contains msg_key ''ARTIFACTORY_KEY''" by (simp add: msg_key_def)
  show "str_contains msg_base ''ARTIFACTORY_BASE''" by (simp add: msg_base_def)
qed

text \<open>
  All three sources set; no argument; and no source for the user, for the key and for
  the base in turn.
\<close>

theorem credential_precedence_witness:
  "(\<exists>r. fst (ArtifactoryRepo_init full_cache full_environ artifactory_image
              (Some ''xb'') (Some ''xu'') (Some ''xk'')) = Inr r
      \<and> artifactory_user r = ''xu'' \<and> artifactory_key r = ''xk'' \<and> artifactory_base r = ''xb'')
   \<and> (\<exists>r. fst (ArtifactoryRepo_init full_cache full_environ artifactory_image None None None) = Inr r
      \<and> artifactory_user r = ''cu'' \<and> artifactory_key r = ''ck'' \<and> artifactory_base r = ''cb'')
   \<and> fst (ArtifactoryRepo_init no_cache Map.empty artifactory_image None None None)
       = Inl (MissingCredentials (Text msg_user))
   \<and> fst (ArtifactoryRepo_init no_cache [''ARTIFACTORY_USER'' \<mapsto> ''eu''] artifactory_image
            None None None)
       = Inl (MissingCredentials (Text msg_key))
   \<and> fst (ArtifactoryRepo_init no_cache
            [''ARTIFACTORY_USER'' \<mapsto> ''eu'', ''ARTIFACTORY_KEY'' \<mapsto> ''ek''] artifactory_image
            None None None)
       = Inl (MissingCredentials (Text msg_base))"
  using
    credential_precedence [of "Some ''xu''" full_cache full_environ "Some ''xk''" "Some ''xb''"
      artifactory_image]
    credential_precedence [of None full_cache full_environ None None artifactory_image]
    credential_precedence [of None no_cache Map.empty None None artifactory_image]
    credential_precedence [of None no_cache "[''ARTIFACTORY_USER'' \<mapsto> ''eu'']" None None
      artifactory_image]
    credential_precedence [of None no_cache
      "[''ARTIFACTORY_USER'' \<mapsto> ''eu'', ''ARTIFACTORY_KEY'' \<mapsto> ''ek'']" None None
      artifactory_image]
  by (simp add: has_source_def full_cache_def no_cache_def full_environ_def)

text \<open>
  C5, as stated, fails: after a construction that resolved all three credentials from its
  arguments, a second construction with no argument and an empty environment raises
  \<open>MissingCredentials\<close>.
\<close>

theorem resolved_credential_not_cached_counterexample:
  "fst (ArtifactoryRepo_init no_cache Map.empty artifactory_image
          (Some ''https://a'') (Some ''u'') (Some ''k''))
     = Inr \<lparr>a_image = artifactory_image,
            artifactory_user = ''u'', artifactory_key = ''k'', artifactory_base = ''https://a'',
            own_artifactory_user = None, own_artifactory_key = None,
            own_artifactory_base = None\<rparr>
   \<and> fst (ArtifactoryRepo_init
        (snd (ArtifactoryRepo_init no_cache Map.empty artifactory_image
                (Some ''https://a'') (Some ''u'') (Some ''k'')))
        Map.empty artifactory_image None None None)
     = Inl (MissingCredentials (Text msg_user))"
  by (simp add: ArtifactoryRepo_init_def credential_chain_def read_attr_def no_cache_def)

text \<open>
  C5, amended. A value passed as an argument serves the instance under construction
  only: a construction whose three arguments are set leaves the class attributes as they
  were. Values held in the class attributes are the shared default: a construction with
  no argument uses them, whatever the environment holds, and leaves them as they were.
\<close>

theorem explicit_and_cached_credentials:
  "(truthy a_user \<and> truthy a_key \<and> truthy a_base \<longrightarrow>
      ArtifactoryRepo_init cls env img a_base a_user a_key =
        (Inr \<lparr>a_image = img, artifactory_user = str_of a_user, artifactory_key = str_of a_key,
               artifactory_base = str_of a_base, own_artifactory_user = None,
               own_artifactory_key = None, own_artifactory_base = None\<rparr>, cls))
   \<and> (truthy (cls_artifactory_user cls) \<and> truthy (cls_artifactory_key cls)
        \<and> truthy (cls_artifactory_base cls) \<longrightarrow>
      ArtifactoryRepo_init cls env img None None None =
        (Inr \<lparr>a_image = img, artifactory_user = str_of (cls_artifactory_user cls),
               artifactory_key = str_of (cls_artifactory_key cls),
               artifactory_base = str_of (cls_artifactory_base cls), own_artifactory_user = None,
               own_artifactory_key = None, own_artifactory_base = None\<rparr>, cls))"
  by (simp add: ArtifactoryRepo_init_def credential_chain_cases)

text \<open>Arguments with an empty cache, and a full cache with no argument.\<close>

theorem explicit_and_cached_credentials_witness:
  "ArtifactoryRepo_init no_cache Map.empty artifactory_image
       (Some ''https://a'') (Some ''u'') (Some ''k'')
     = (Inr \<lparr>a_image = artifactory_image,
            artifactory_user = ''u'', artifactory_key = ''k'', artifactory_base = ''https://a'',
            own_artifactory_user = None, own_artifactory_key = None,
            own_artifactory_base = None\<rparr>, no_cache)
   \<and> ArtifactoryRepo_init full_cache Map.empty artifactory_image None None None
     = (Inr \<lparr>a_image = artifactory_image,
            artifactory_user = ''cu'', artifactory_key = ''ck'', artifactory_base = ''cb'',
            own_artifactory_user = None, own_artifactory_key = None,
            own_artifactory_base = None\<rparr>, full_cache)"
  using
    explicit_and_cached_credentials [of "Some ''u''" "Some ''k''" "Some ''https://a''"
      no_cache Map.empty artifactory_image]
    explicit_and_cached_credentials [of None None None full_cache Map.empty artifactory_image]
  by (simp add: full_cache_def)

section \<open>The Registry-API adapter\<close>

text \<open>
  C7. For a response of status 200 whose \<open>tags\<close> is a list of one entry with a boolean
  \<open>is_manifest_list\<close> flag. For the entry of a manifest list, the manifest-list request
  returns the entry's \<open>manifest_digest\<close> and the single-image request raises
  \<open>ManifestNotFound\<close>. For the entry of a single image, the single-image request returns
  the entry's \<open>manifest_digest\<close> and the manifest-list request raises
  \<open>ManifestListNotFound\<close>. A \<open>manifest_digest\<close> that is a \<open>str\<close> is returned as that
  \<open>str\<close>.
\<close>

theorem quay_single_entry:
  assumes "http_get w (quay_url self) = Inr resp"
    and "status_code resp = 200"
    and "resp_json resp = Inr body"
    and "py_getitem body ''tags'' = Inr (JArr [t])"
    and "py_getitem t ''is_manifest_list'' = Inr (JBool flag)"
  shows "QuayRepo_get_manifest_list_digest w self =
           (if flag then py_getitem t ''manifest_digest''
            else Inl (ManifestListNotFound
                   (Text (''Tag '' @ get_tag (q_image self) @ '' is not manifest list''))))
       \<and> QuayRepo_get_image_digest w self =
           (if flag
            then Inl (ManifestNotFound
                   (Text (''Tag '' @ get_tag (q_image self) @ '' is a manifest list'')))
            else py_getitem t ''manifest_digest'')
       \<and> (py_getitem t ''manifest_digest'' = Inr (JStr d) \<longrightarrow>
            (flag \<longrightarrow> QuayRepo_get_manifest_list_digest w self = Inr (JStr d))
            \<and> (\<not> flag \<longrightarrow> QuayRepo_get_image_digest w self = Inr (JStr d)))"
proof -
  have loop: "QuayRepo_get_digest w self ml = tags_loop (get_tag (q_image self)) ml [t]" for ml
    using assms by (simp add: QuayRepo_get_digest_def)
  have same: "py_eq_bool (JBool flag) ml = (flag = ml)" for ml
    by simp
  have list: "QuayRepo_get_manifest_list_digest w self =
           (if flag then py_getitem t ''manifest_digest''
            else Inl (ManifestListNotFound
                   (Text (''Tag '' @ get_tag (q_image self) @ '' is not manifest list''))))"
    using assms(5) by (simp add: QuayRepo_get_manifest_list_digest_def loop same)
  have single: "QuayRepo_get_image_digest w self =
           (if flag
            then Inl (ManifestNotFound
                   (Text (''Tag '' @ get_tag (q_image self) @ '' is a manifest list'')))
            else py_getitem t ''manifest_digest'')"
    using assms(5) by (simp add: QuayRepo_get_image_digest_def loop same)
  from list single show ?thesis by simp
qed

text \<open>
  The entry of a manifest list and the entry of a single image, each asked for both
  digests.
\<close>

theorem quay_single_entry_witness:
  "QuayRepo_get_manifest_list_digest (quay_world [tag_entry True ''sha256:deadbeef''])
       (QuayRepo_init quay_image) = Inr (JStr ''sha256:deadbeef'')
   \<and> QuayRepo_get_image_digest (quay_world [tag_entry True ''sha256:deadbeef''])
       (QuayRepo_init quay_image) = Inl (ManifestNotFound (Text ''Tag 1 is a manifest list''))
   \<and> QuayRepo_get_image_digest (quay_world [tag_entry False ''sha256:c0ffee''])
       (QuayRepo_init quay_image) = Inr (JStr ''sha256:c0ffee'')
   \<and> QuayRepo_get_manifest_list_digest (quay_world [tag_entry False ''sha256:c0ffee''])
       (QuayRepo_init quay_image) = Inl (ManifestListNotFound (Text ''Tag 1 is not manifest list''))"
  using
    quay_single_entry [of "quay_world [tag_entry True ''sha256:deadbeef'']"
      "QuayRepo_init quay_image" "tags_response [tag_entry True ''sha256:deadbeef'']"
      "JObj [(''tags'', JArr [tag_entry True ''sha256:deadbeef''])]"
      "tag_entry True ''sha256:deadbeef''" True "''sha256:deadbeef''"]
    quay_single_entry [of "quay_world [tag_entry False ''sha256:c0ffee'']"
      "QuayRepo_init quay_image" "tags_response [tag_entry False ''sha256:c0ffee'']"
      "JObj [(''tags'', JArr [tag_entry False ''sha256:c0ffee''])]"
      "tag_entry False ''sha256:c0ffee''" False "''sha256:c0ffee''"]
  by (simp add: quay_world_def tags_response_def tag_entry_def no_backend_def QuayRepo_init_def
        quay_image_def)

text \<open>
  C6. With an empty \<open>tags\<close> list the loop body never runs: both requests return \<open>None\<close>
  and raise nothing.
\<close>

theorem quay_no_tags_returns_None:
  "QuayRepo_get_manifest_list_digest
     (no_backend\<lparr>http_get := (\<lambda>url. Inr \<lparr>status_code = 200, resp_text = '''',
        resp_json = Inr (JObj [(''tags'', JArr [])])\<rparr>)\<rparr>)
     (QuayRepo_init quay_image) = Inr JNull
   \<and> QuayRepo_get_image_digest
     (no_backend\<lparr>http_get := (\<lambda>url. Inr \<lparr>status_code = 200, resp_text = '''',
        resp_json = Inr (JObj [(''tags'', JArr [])])\<rparr>)\<rparr>)
     (QuayRepo_init quay_image) = Inr JNull"
  by (simp add: QuayRepo_get_manifest_list_digest_def QuayRepo_get_image_digest_def
        QuayRepo_get_digest_def)

text \<open>Two or more entries raise, whatever the entries are.\<close>

lemma quay_many_tags_raise:
  assumes "http_get w (quay_url self) = Inr resp"
    and "status_code resp = 200"
    and "resp_json resp = Inr body"
    and "py_getitem body ''tags'' = Inr (JArr ts)"
    and "length ts > 1"
  shows "QuayRepo_get_digest w self manifest_list =
           Inl (Exception (Formatted ''Expected 1 tag, found {}. {}''
                  [JInt (int (length ts)), JArr ts]))"
  using assms by (simp add: QuayRepo_get_digest_def)

section \<open>The CLI-Inspection adapter\<close>

text \<open>
  C3. A manifest list asked for its single-image digest: \<open>get_image_digest\<close> returns
  \<open>None\<close> and raises nothing.
\<close>

theorem docker_list_single_digest_returns_None:
  "DockerRepo_get_image_digest
     (no_backend\<lparr>run_shell := (\<lambda>cmd. Inr ''raw manifest list''),
        json_loads := (\<lambda>s. Inr (JObj [(''mediaType'',
          JStr ''application/vnd.docker.distribution.manifest.list.v2+json'')]))\<rparr>)
     (DockerRepo_init Map.empty docker_image None None) = Inr JNull"
  by (simp add: DockerRepo_get_image_digest_def DockerRepo_get_digest_def)

text \<open>
  C9. With no credentials, the three command lines of \<open>_get_digest\<close> keep
  \<open>docker.io/\<close> in the image reference, while the one of \<open>get_raw_manifest_list\<close> has it
  removed; a shell that answers only the commands with the prefix serves
  \<open>get_image_digest\<close>.
\<close>

theorem docker_digest_commands_keep_hub_prefix:
  "digest_raw_command (DockerRepo_init Map.empty docker_image None None)
     = ''skopeo inspect --override-os linux --raw docker://docker.io/library/nginx:1''
   \<and> digest_sha_command (DockerRepo_init Map.empty docker_image None None)
     = ''skopeo inspect --override-os linux --raw docker://docker.io/library/nginx:1 | shasum -a 256''
   \<and> digest_inspect_command (DockerRepo_init Map.empty docker_image None None)
     = ''skopeo inspect --override-os linux docker://docker.io/library/nginx:1''
   \<and> raw_manifest_list_command (DockerRepo_init Map.empty docker_image None None)
     = ''skopeo inspect --override-os linux --raw docker://library/nginx:1''
   \<and> DockerRepo_get_image_digest
     (no_backend\<lparr>run_shell := (\<lambda>cmd.
          if cmd = ''skopeo inspect --override-os linux --raw docker://docker.io/library/nginx:1''
          then Inr ''raw''
          else if cmd = ''skopeo inspect --override-os linux docker://docker.io/library/nginx:1''
          then Inr ''resolved''
          else Inl (OtherError cmd)),
        json_loads := (\<lambda>s.
          if s = ''raw''
          then Inr (JObj [(''mediaType'', JStr ''application/vnd.docker.distribution.manifest.v2+json'')])
          else Inr (JObj [(''Digest'', JStr ''sha256:0123'')]))\<rparr>)
     (DockerRepo_init Map.empty docker_image None None) = Inr (JStr ''sha256:0123'')"
  by (simp add: DockerRepo_get_image_digest_def DockerRepo_get_digest_def digest_raw_command_def
        digest_sha_command_def digest_inspect_command_def raw_manifest_list_command_def
        DockerRepo_init_def docker_image_def py_replace.simps)

section \<open>The form of a returned digest\<close>

lemma digest_form_hex64: "hex64 h \<Longrightarrow> digest_form (''sha256:'' @ h)"
  by (simp add: hex64_def digest_form_def)

lemma py_str_truthy: "truthy h \<Longrightarrow> py_str h = str_of h"
  by (cases h) simp_all

lemma artifactory_digest_form:
  assumes "backend_digests_well_formed w (Artifactory r)"
  shows "ArtifactoryRepo_get_image_digest w r = Inr (JStr d) \<Longrightarrow> digest_form d"
    and "ArtifactoryRepo_get_manifest_list_digest w r = Inr (JStr d) \<Longrightarrow> digest_form d"
  using assms
  by (auto simp: backend_digests_well_formed_def ArtifactoryRepo_get_image_digest_def
        ArtifactoryRepo_get_manifest_list_digest_def get_raw_image_digest_def
        get_raw_manifest_list_digest_def digest_form_hex64 [simplified] py_str_truthy
      split: sum.splits exn.splits)

lemma tags_loop_digest_form:
  assumes "list_all (\<lambda>t. digest_if_str (py_getitem t ''manifest_digest'')) ts"
    and "tags_loop tag ml ts = Inr (JStr d)"
  shows "digest_form d"
  using assms by (cases ts) (auto split: sum.splits if_splits)

lemma quay_digest_form:
  assumes "backend_digests_well_formed w (Quay q)"
    and "QuayRepo_get_digest w q ml = Inr (JStr d)"
  shows "digest_form d"
  using assms
  by (auto simp: backend_digests_well_formed_def QuayRepo_get_digest_def
      split: sum.splits if_splits dest: tags_loop_digest_form)

lemma docker_digest_form:
  assumes "backend_digests_well_formed w (Docker k)"
    and "DockerRepo_get_digest w k ml = Inr (JStr d)"
  shows "digest_form d"
  using assms
  by (auto simp: backend_digests_well_formed_def DockerRepo_get_digest_def digest_form_hex64 [simplified]
      split: sum.splits if_splits)

text \<open>
  C2, as stated, fails: the Registry-API adapter returns the \<open>manifest_digest\<close> of the
  response as it is, here a string that is not a digest.
\<close>

theorem digest_passed_through_counterexample:
  "ImageRepo_get_image_digest
     (no_backend\<lparr>http_get := (\<lambda>url. Inr \<lparr>status_code = 200, resp_text = '''',
        resp_json = Inr (JObj [(''tags'', JArr [JObj [(''is_manifest_list'', JBool False),
          (''manifest_digest'', JStr ''md5:0123'')]])])\<rparr>)\<rparr>)
     \<lparr>image = quay_image, image_repo = Quay (QuayRepo_init quay_image)\<rparr> = Inr (JStr ''md5:0123'')
   \<and> \<not> digest_form ''md5:0123''"
  by (simp add: ImageRepo_get_image_digest_def QuayRepo_get_image_digest_def
        QuayRepo_get_digest_def digest_form_def)

text \<open>
  C2, amended. No adapter checks the value it returns. A \<open>str\<close> returned by
  \<open>get_image_digest\<close> or \<open>get_manifest_list_digest\<close> is \<open>sha256:\<close> and 64 lowercase
  hexadecimal characters whenever the values the backend supplies to that adapter are
  well formed.
\<close>

theorem digest_form_of_well_formed_backend:
  assumes "backend_digests_well_formed w (image_repo self)"
    and "ImageRepo_get_image_digest w self = Inr (JStr d)
         \<or> ImageRepo_get_manifest_list_digest w self = Inr (JStr d)"
  shows "digest_form d"
proof (cases "image_repo self")
  case (Artifactory r)
  with assms show ?thesis
    by (auto simp: ImageRepo_get_image_digest_def ImageRepo_get_manifest_list_digest_def
        dest: artifactory_digest_form)
next
  case (Quay q)
  with assms show ?thesis
    by (auto simp: ImageRepo_get_image_digest_def ImageRepo_get_manifest_list_digest_def
        QuayRepo_get_image_digest_def QuayRepo_get_manifest_list_digest_def
        dest: quay_digest_form)
next
  case (Docker k)
  with assms show ?thesis
    by (auto simp: ImageRepo_get_image_digest_def ImageRepo_get_manifest_list_digest_def
        DockerRepo_get_image_digest_def DockerRepo_get_manifest_list_digest_def
        dest: docker_digest_form)
qed

text \<open>The artifact store reports a checksum of 64 hexadecimal characters.\<close>

theorem digest_form_of_well_formed_backend_witness:
  "ImageRepo_get_image_digest
     (no_backend\<lparr>stat_sha256 := (\<lambda>p auth.
        Inr (Some ''abc123abc123abc123abc123abc123abc123abc123abc123abc123abc123abcd''))\<rparr>)
     \<lparr>image = artifactory_image,
      image_repo = Artifactory
        \<lparr>a_image = artifactory_image, artifactory_user = ''u'', artifactory_key = ''k'',
          artifactory_base = ''https://a'', own_artifactory_user = None,
          own_artifactory_key = None, own_artifactory_base = None\<rparr>\<rparr>
     = Inr (JStr ''sha256:abc123abc123abc123abc123abc123abc123abc123abc123abc123abc123abcd'')
   \<and> digest_form ''sha256:abc123abc123abc123abc123abc123abc123abc123abc123abc123abc123abcd''"
proof -
  let ?w = "no_backend\<lparr>stat_sha256 := (\<lambda>p auth.
        Inr (Some ''abc123abc123abc123abc123abc123abc123abc123abc123abc123abc123abcd''))\<rparr>"
  let ?self = "\<lparr>image = artifactory_image,
      image_repo = Artifactory
        \<lparr>a_image = artifactory_image, artifactory_user = ''u'', artifactory_key = ''k'',
          artifactory_base = ''https://a'', own_artifactory_user = None,
          own_artifactory_key = None, own_artifactory_base = None\<rparr>\<rparr>"
  have wf: "backend_digests_well_formed ?w (image_repo ?self)"
    by (simp add: backend_digests_well_formed_def hex64_def lower_hex_def)
  have run: "ImageRepo_get_image_digest ?w ?self
      = Inr (JStr ''sha256:abc123abc123abc123abc123abc123abc123abc123abc123abc123abc123abcd'')"
    by (simp add: ImageRepo_get_image_digest_def ArtifactoryRepo_get_image_digest_def
          get_raw_image_digest_def)
  from digest_form_of_well_formed_backend [OF wf disjI1 [OF run]] run
  show ?thesis by simp
qed

section \<open>The raw manifest list of the Registry-API adapter\<close>

text \<open>
  C10. When the facade holds a \<open>QuayRepo\<close>, \<open>get_raw_manifest_list\<close> raises
  \<open>AttributeError\<close>, which is none of the four kinds of the taxonomy, in every world.
\<close>

theorem quay_facade_raw_manifest_list:
  assumes "fst (ImageRepo_init cls env img) = Inr r" and "image_repo r = Quay q"
  shows "ImageRepo_get_raw_manifest_list w r = Inl (AttributeError ''get_raw_manifest_list'')
         \<and> \<not> taxonomy_kind (AttributeError ''get_raw_manifest_list'')"
  using assms by (simp add: ImageRepo_get_raw_manifest_list_def)

text \<open>The facade constructed for a \<open>quay.io/\<close> host.\<close>

theorem quay_facade_raw_manifest_list_witness:
  "fst (ImageRepo_init no_cache Map.empty quay_image)
     = Inr \<lparr>image = quay_image, image_repo = Quay (QuayRepo_init quay_image)\<rparr>
   \<and> ImageRepo_get_raw_manifest_list no_backend
       \<lparr>image = quay_image, image_repo = Quay (QuayRepo_init quay_image)\<rparr>
     = Inl (AttributeError ''get_raw_manifest_list'')
   \<and> \<not> taxonomy_kind (AttributeError ''get_raw_manifest_list'')"
proof -
  have sel: "fst (ImageRepo_init no_cache Map.empty quay_image)
     = Inr \<lparr>image = quay_image, image_repo = Quay (QuayRepo_init quay_image)\<rparr>"
    by (simp add: ImageRepo_init_def quay_image_def)
  have ad: "image_repo \<lparr>image = quay_image, image_repo = Quay (QuayRepo_init quay_image)\<rparr>
      = Quay (QuayRepo_init quay_image)"
    by simp
  from quay_facade_raw_manifest_list [OF sel ad, of no_backend] sel
  show ?thesis by simp
qed

end
